theory Spec2Isabelle
  imports Complex_Main "HOL-Library.Sublist"
begin

section \<open>Python values shared by the modules\<close>

text \<open>
  Exceptions are values. Only the exception classes that the modelled code paths can
  raise are listed; each carries the path or message it was raised with.
\<close>

datatype py_error =
    FileNotFoundError string
  | NotADirectoryError string
  | IsADirectoryError string
  | FileExistsError string
  | ZeroDivisionError
  | ValueError string

text \<open>\<^verbatim>\<open>str(n)\<close> for a Python \<^verbatim>\<open>int\<close>: decimal digits, a leading minus sign when negative.\<close>

fun digits10 :: "nat \<Rightarrow> string" where
  "digits10 n =
     (if n < 10 then [char_of (48 + n)]
      else digits10 (n div 10) @ [char_of (48 + n mod 10)])"

declare digits10.simps [simp del]

definition str_int :: "int \<Rightarrow> string" where
  "str_int i = (if i < 0 then CHR ''-'' # digits10 (nat (- i)) else digits10 (nat i))"

text \<open>
  \<^verbatim>\<open>s.replace(old, new)\<close>: every non-overlapping occurrence of \<open>old\<close>, scanning from the
  left; an empty \<open>old\<close> matches before every character and at the end.
\<close>

function replace :: "string \<Rightarrow> string \<Rightarrow> string \<Rightarrow> string" where
  "replace [] old new = (if old = [] then new else [])"
| "replace (c # cs) old new =
     (if old = [] then new @ c # replace cs old new
      else if prefix old (c # cs) then new @ replace (drop (length old) (c # cs)) old new
      else c # replace cs old new)"
  by pat_completeness auto
termination
  by (relation "measure (\<lambda>(s, old, new). length s)") auto

text \<open>\<^verbatim>\<open>os.path.join(a, b)\<close> of \<^verbatim>\<open>posixpath\<close>, for two components.\<close>

definition path_join :: "string \<Rightarrow> string \<Rightarrow> string" where
  "path_join a b =
     (if b \<noteq> [] \<and> hd b = CHR ''/'' then b
      else if a = [] \<or> last a = CHR ''/'' then a @ b
      else a @ ''/'' @ b)"

section \<open>\<^verbatim>\<open>src/streaming_chart/__init__.py\<close>\<close>

text \<open>
  The files of the frontend directory are read through a file system \<open>fs\<close> that maps a
  path to the text of the file there, or to \<open>None\<close> when no such file exists.
  \<^verbatim>\<open>open(path, "r")\<close> followed by \<^verbatim>\<open>f.read()\<close> is \<open>read_text\<close>; the source has no
  \<^verbatim>\<open>try\<close> around it, so its exception leaves the function.
\<close>

type_synonym file_system = "string \<Rightarrow> string option"

definition read_text :: "file_system \<Rightarrow> string \<Rightarrow> py_error + string" where
  "read_text fs path = (case fs path of None \<Rightarrow> Inl (FileNotFoundError path) | Some s \<Rightarrow> Inr s)"

text \<open>
  \<^verbatim>\<open>_COMPONENT_PATH = os.path.join(os.path.dirname(__file__), "frontend")\<close>; the directory
  of the module, \<^verbatim>\<open>os.path.dirname(__file__)\<close>, is the parameter \<open>module_dir\<close>.
\<close>

definition COMPONENT_PATH :: "string \<Rightarrow> string" where
  "COMPONENT_PATH module_dir = path_join module_dir ''frontend''"

text \<open>The four paths in the order in which \<^verbatim>\<open>streaming_chart\<close> opens them.\<close>

definition frontend_files :: "string \<Rightarrow> string list" where
  "frontend_files module_dir =
     [path_join (COMPONENT_PATH module_dir) ''index.html'',
      path_join (COMPONENT_PATH module_dir) ''style.css'',
      path_join (COMPONENT_PATH module_dir) ''main.js'',
      path_join (COMPONENT_PATH module_dir) ''msgpack.js'']"

text \<open>The f-string \<^verbatim>\<open>config_script\<close> (lines 56 to 64); \<^verbatim>\<open>{{\<close> and \<^verbatim>\<open>}}\<close> are literal braces.\<close>

definition config_script :: "string \<Rightarrow> string \<Rightarrow> int \<Rightarrow> string" where
  \<open>config_script websocket_url topic candle_interval =
     ''\<newline>    <script>\<newline>        window.STREAMING_CHART_CONFIG = {\<newline>''
     @ ''            websocketUrl: "'' @ websocket_url @ ''",\<newline>''
     @ ''            topic: "'' @ topic @ ''",\<newline>''
     @ ''            candleInterval: '' @ str_int candle_interval @ ''\<newline>''
     @ ''        };\<newline>    </script>\<newline>    ''\<close>

text \<open>The f-string \<^verbatim>\<open>full_html\<close> (lines 67 to 93).\<close>

definition full_html :: "string \<Rightarrow> string \<Rightarrow> string \<Rightarrow> string \<Rightarrow> string \<Rightarrow> string" where
  \<open>full_html css_content html_content config msgpack_content js_content =
     ''\<newline>    <!DOCTYPE html>\<newline>    <html>\<newline>    <head>\<newline>''
     @ ''        <meta charset="UTF-8">\<newline>''
     @ ''        <meta name="viewport" content="width=device-width, initial-scale=1.0">\<newline>''
     @ ''        <script\<newline>''
     @ ''            src="https://unpkg.com/lightweight-charts@4.1.0/dist/lightweight-charts.standalone.production.js">\<newline>''
     @ ''        </script>\<newline>        <style>\<newline>        ''
     @ css_content
     @ ''\<newline>        </style>\<newline>    </head>\<newline>    <body>\<newline>        ''
     @ html_content
     @ ''\<newline>        ''
     @ config
     @ ''\<newline>        <script>\<newline>        // Msgpack decoder/encoder\<newline>        ''
     @ msgpack_content
     @ ''\<newline>        </script>\<newline>        <script>\<newline>        // Main chart script\<newline>        ''
     @ js_content
     @ ''\<newline>        </script>\<newline>    </body>\<newline>    </html>\<newline>    ''\<close>

text \<open>
  The one effect of \<^verbatim>\<open>streaming_chart\<close> is its last statement,
  \<^verbatim>\<open>components.html(full_html, height=height, scrolling=False)\<close>. The call is the value
  \<open>Inr\<close> of the model; \<open>Inl e\<close> says that the exception \<open>e\<close> left the function before
  that statement, so that nothing was handed to the render surface.
\<close>

record html_call =
  call_html :: string
  call_height :: int
  call_scrolling :: bool

definition streaming_chart ::
  "string \<Rightarrow> file_system \<Rightarrow> string \<Rightarrow> string \<Rightarrow> int \<Rightarrow> int \<Rightarrow> py_error + html_call" where
  \<open>streaming_chart module_dir fs websocket_url topic height candle_interval =
     (let html_file = path_join (COMPONENT_PATH module_dir) ''index.html'';
          css_file = path_join (COMPONENT_PATH module_dir) ''style.css'';
          js_file = path_join (COMPONENT_PATH module_dir) ''main.js'';
          msgpack_file = path_join (COMPONENT_PATH module_dir) ''msgpack.js''
      in case read_text fs html_file of Inl e \<Rightarrow> Inl e | Inr html_content \<Rightarrow>
         (case read_text fs css_file of Inl e \<Rightarrow> Inl e | Inr css_content \<Rightarrow>
         (case read_text fs js_file of Inl e \<Rightarrow> Inl e | Inr js_content \<Rightarrow>
         (case read_text fs msgpack_file of Inl e \<Rightarrow> Inl e | Inr msgpack_content \<Rightarrow>
            (let js_content' =
                   replace js_content
                     ''import { decodeMessage, encodeMessage } from './msgpack.js';'' [];
                 msgpack_content' =
                   replace msgpack_content ''export { encodeMessage, decodeMessage };'' []
             in Inr \<lparr>call_html = full_html css_content html_content
                               (config_script websocket_url topic candle_interval)
                               msgpack_content' js_content',
                      call_height = height, call_scrolling = False\<rparr>)))))\<close>

text \<open>A file system holding the four frontend files next to a module in \<^verbatim>\<open>/app/sc\<close>.\<close>

definition demo_fs :: file_system where
  \<open>demo_fs =
     [''/app/sc/frontend/index.html'' \<mapsto> ''<div id="chart"></div>'',
      ''/app/sc/frontend/style.css'' \<mapsto> ''body { margin: 0; }'',
      ''/app/sc/frontend/main.js'' \<mapsto> ''import { decodeMessage, encodeMessage } from './msgpack.js';run();'',
      ''/app/sc/frontend/msgpack.js'' \<mapsto> ''export { encodeMessage, decodeMessage };'']\<close>

definition demo_url :: string where
  \<open>demo_url = ''ws://localhost:8009/ws?token=eyJhbGciOiJIUzI1NiJ9.e30.sig''\<close>

definition demo_call :: "int \<Rightarrow> html_call" where
  \<open>demo_call h =
     \<lparr>call_html = full_html ''body { margin: 0; }'' ''<div id="chart"></div>''
                    (config_script demo_url ''market.data@BTC'' 60) [] ''run();'',
      call_height = h, call_scrolling = False\<rparr>\<close>

section \<open>\<^verbatim>\<open>src/table.py\<close>: the page of \<^verbatim>\<open>TableManager.render_table\<close>\<close>





section \<open>\<^verbatim>\<open>src/exporter.py\<close>\<close>

subsection \<open>The disk\<close>

text \<open>
  The exporter acts on the file system through \<^verbatim>\<open>os.path.exists\<close>, \<^verbatim>\<open>os.makedirs\<close>,
  \<^verbatim>\<open>open(path, "w")\<close> and \<^verbatim>\<open>fig.write_image\<close>. The disk is a map from a path to what is
  there: a directory, or a file with its content. Paths are taken as written (relative
  to the working directory, which always exists).
\<close>

datatype node = Dir | File string

type_synonym disk = "string \<Rightarrow> node option"

definition path_exists :: "disk \<Rightarrow> string \<Rightarrow> bool" where
  "path_exists d p = (p \<noteq> [] \<and> d p \<noteq> None)"

text \<open>\<^verbatim>\<open>os.path.dirname\<close>: up to the last slash, trailing slashes removed unless it is the root.\<close>

definition dirname :: "string \<Rightarrow> string" where
  "dirname p =
     (let head = rev (dropWhile (\<lambda>c. c \<noteq> CHR ''/'') (rev p))
      in if head \<noteq> [] \<and> \<not> list_all (\<lambda>c. c = CHR ''/'') head
         then rev (dropWhile (\<lambda>c. c = CHR ''/'') (rev head))
         else head)"

definition is_dir :: "disk \<Rightarrow> string \<Rightarrow> bool" where
  "is_dir d p = (list_all (\<lambda>c. c = CHR ''/'') p \<or> d p = Some Dir)"

text \<open>
  \<^verbatim>\<open>open(p, "w")\<close>: the directory of \<open>p\<close> must exist and \<open>p\<close> must not be a directory;
  the file is created, or emptied when it is there already.
\<close>

definition open_w :: "disk \<Rightarrow> string \<Rightarrow> py_error + disk" where
  "open_w d p =
     (if p = [] then Inl (FileNotFoundError p)
      else if \<not> is_dir d (dirname p) then
        (case d (dirname p) of
           Some (File _) \<Rightarrow> Inl (NotADirectoryError p)
         | _ \<Rightarrow> Inl (FileNotFoundError p))
      else (case d p of
              Some Dir \<Rightarrow> Inl (IsADirectoryError p)
            | _ \<Rightarrow> Inr (d(p \<mapsto> File []))))"

definition write_file :: "disk \<Rightarrow> string \<Rightarrow> string \<Rightarrow> py_error + disk" where
  "write_file d p s = (case open_w d p of Inl e \<Rightarrow> Inl e | Inr d' \<Rightarrow> Inr (d'(p \<mapsto> File s)))"

text \<open>The directories above a path: its prefixes that end before a slash.\<close>

fun dir_prefixes :: "string \<Rightarrow> string \<Rightarrow> string list" where
  "dir_prefixes acc [] = []"
| "dir_prefixes acc (c # cs) =
     (if c = CHR ''/'' \<and> acc \<noteq> [] \<and> last acc \<noteq> CHR ''/'' then [acc] else [])
     @ dir_prefixes (acc @ [c]) cs"

definition ancestors :: "string \<Rightarrow> string list" where
  "ancestors p = dir_prefixes [] p"

text \<open>
  \<^verbatim>\<open>os.makedirs(name)\<close> with \<^verbatim>\<open>exist_ok=False\<close>: creates the directory and every missing
  directory above it; raises when the name is empty, when something above it is a file,
  or when the name exists already.
\<close>

definition makedirs :: "disk \<Rightarrow> string \<Rightarrow> py_error + disk" where
  "makedirs d name =
     (if name = [] then Inl (FileNotFoundError name)
      else if list_ex (\<lambda>a. case d a of Some (File _) \<Rightarrow> True | _ \<Rightarrow> False) (ancestors name)
        then Inl (NotADirectoryError name)
      else if d name \<noteq> None then Inl (FileExistsError name)
      else Inr (fold (\<lambda>a d'. d'(a \<mapsto> Dir)) (ancestors name @ [name]) d))"

subsection \<open>\<^verbatim>\<open>Exporter.export_to_markdown\<close>\<close>

text \<open>
  A Plotly figure is modelled by what \<^verbatim>\<open>fig.write_image\<close> gets when it renders the
  figure: the bytes of the PNG, or the exception the renderer raises. A data frame is
  modelled by what \<^verbatim>\<open>df.to_markdown(index=False)\<close> gives: the table text, or the exception
  it raises. Every exception of the model derives from \<^verbatim>\<open>Exception\<close>, so the handler
  \<^verbatim>\<open>except Exception\<close> catches it. The line the handler prints is not modelled.
\<close>

type_synonym figure = "py_error + string"
type_synonym data_frame = "py_error + string"

definition write_image :: "figure \<Rightarrow> string \<Rightarrow> disk \<Rightarrow> py_error + disk" where
  "write_image fig p d = (case fig of Inl e \<Rightarrow> Inl e | Inr png \<Rightarrow> write_file d p png)"

definition image_name :: "string \<Rightarrow> nat \<Rightarrow> string" where
  "image_name name_path i = name_path @ ''/'' @ name_path @ ''_image'' @ str_int (int i) @ ''.png''"

definition markdown_name :: "string \<Rightarrow> string" where
  "markdown_name name_path = name_path @ ''/'' @ name_path @ ''_markdown.md''"

text \<open>
  The loop \<^verbatim>\<open>for i, fig in enumerate(fig_list)\<close> from index \<open>i\<close> on: the first exception
  ends it, and the disk is the one the writes before it left.
\<close>

fun write_images :: "string \<Rightarrow> nat \<Rightarrow> figure list \<Rightarrow> disk \<Rightarrow> py_error option \<times> disk" where
  "write_images name_path i [] d = (None, d)"
| "write_images name_path i (fig # figs) d =
     (case write_image fig (image_name name_path i) d of
        Inl e \<Rightarrow> (Some e, d)
      | Inr d' \<Rightarrow> write_images name_path (Suc i) figs d')"

text \<open>The loop \<^verbatim>\<open>for df in df_list\<close> on the open file, whose text so far is \<open>acc\<close>.\<close>

fun write_tables :: "data_frame list \<Rightarrow> string \<Rightarrow> py_error option \<times> string" where
  "write_tables [] acc = (None, acc)"
| "write_tables (df # dfs) acc =
     (case df of
        Inl e \<Rightarrow> (Some e, acc)
      | Inr table \<Rightarrow> write_tables dfs (acc @ table @ ''\<newline>\<newline>''))"

text \<open>The loop \<^verbatim>\<open>for i in range(len(fig_list))\<close>: one image link per figure.\<close>

definition image_links :: "string \<Rightarrow> nat \<Rightarrow> string" where
  "image_links name_path n =
     concat (map (\<lambda>i. ''![Chart]('' @ name_path @ ''_image'' @ str_int (int i) @ ''.png)\<newline>'')
                 [0..<n])"

text \<open>
  The \<^verbatim>\<open>with open(md_filename, "w") as f\<close> block. When an exception leaves the block the
  file is closed and keeps the text written so far.
\<close>

definition write_markdown ::
  "string \<Rightarrow> data_frame list \<Rightarrow> nat \<Rightarrow> disk \<Rightarrow> py_error option \<times> disk" where
  "write_markdown name_path df_list n d =
     (case open_w d (markdown_name name_path) of
        Inl e \<Rightarrow> (Some e, d)
      | Inr d' \<Rightarrow>
          (case write_tables df_list [] of
             (Some e, text) \<Rightarrow> (Some e, d'(markdown_name name_path \<mapsto> File text))
           | (None, text) \<Rightarrow>
               (None, d'(markdown_name name_path \<mapsto> File (text @ image_links name_path n)))))"

text \<open>
  Lines 41 and 42, before the \<^verbatim>\<open>try\<close>: \<^verbatim>\<open>if not os.path.exists(name_path): os.makedirs(name_path)\<close>.
\<close>

definition ensure_dir :: "disk \<Rightarrow> string \<Rightarrow> py_error + disk" where
  "ensure_dir d name_path = (if \<not> path_exists d name_path then makedirs d name_path else Inr d)"

text \<open>
  The function: \<open>Inl e\<close> is the exception \<open>e\<close> leaving the function, \<open>Inr b\<close> the returned
  boolean; the second component is the disk afterwards.
\<close>

definition export_to_markdown ::
  "data_frame list \<Rightarrow> figure list \<Rightarrow> string \<Rightarrow> disk \<Rightarrow> (py_error + bool) \<times> disk" where
  "export_to_markdown df_list fig_list name_path d =
     (case ensure_dir d name_path of
        Inl e \<Rightarrow> (Inl e, d)
      | Inr d1 \<Rightarrow>
          (case write_images name_path 0 fig_list d1 of
             (Some e, d2) \<Rightarrow> (Inr False, d2)
           | (None, d2) \<Rightarrow>
               (case write_markdown name_path df_list (length fig_list) d2 of
                  (Some e, d3) \<Rightarrow> (Inr False, d3)
                | (None, d3) \<Rightarrow> (Inr True, d3))))"

section \<open>The candle aggregator of the streaming engine\<close>

text \<open>
  The streaming engine is the frontend script \<^verbatim>\<open>frontend/main.js\<close> that
  \<^verbatim>\<open>streaming_chart\<close> inlines; the file is not among the sources. Its candle aggregator
  is modelled here from the specification (data model of section 3, algorithm of
  section 4.4).
\<close>

text \<open>Modelled from the spec: the \<^verbatim>\<open>side\<close> of a tick event, \<^verbatim>\<open>enum{buy,sell,unknown}\<close>
  (\<^verbatim>\<open>main.js\<close> is missing).\<close>

datatype side = Buy | Sell | Unknown

text \<open>Modelled from the spec: the tick event of \<^verbatim>\<open>main.js\<close> (missing),
  \<^verbatim>\<open>{symbol, price: decimal, size: decimal, side, timestamp: instant}\<close>. Decimals are
  rationals; the timestamp is in seconds, with sub-second precision. The size is the
  size of the trade, at least 0; which way the trade went is the \<open>side\<close>.\<close>

record tick =
  symbol :: string
  price :: rat
  tick_size :: rat
  tick_side :: side
  timestamp :: rat

text \<open>Modelled from the spec: the candle bucket of \<^verbatim>\<open>main.js\<close> (missing),
  \<^verbatim>\<open>{bucket_start, interval_seconds, open, high, low, close, volume, tick_count}\<close>.\<close>

record candle =
  bucket_start :: int
  interval_seconds :: int
  bar_open :: rat
  bar_high :: rat
  bar_low :: rat
  bar_close :: rat
  volume :: rat
  tick_count :: nat

text \<open>Modelled from the spec: the three output events of the aggregator of \<^verbatim>\<open>main.js\<close>
  (missing), each carrying the snapshot of the bucket it is about.\<close>

datatype event = BarOpened candle | BarUpdated candle | BarClosed candle

text \<open>Modelled from the spec: the state of the aggregator of \<^verbatim>\<open>main.js\<close> (missing): the
  interval fixed at construction, at most one current bucket, the bounded history of
  closed buckets, and the count of discarded late ticks. The spec gives no number for
  the bound of the history; it is the field \<open>history_limit\<close>.\<close>

record aggregator =
  interval :: int
  history_limit :: nat
  current :: "candle option"
  history :: "candle list"
  late_ticks_discarded :: nat

text \<open>Modelled from the spec: the construction of the aggregator of \<^verbatim>\<open>main.js\<close> (missing)
  from empty state.\<close>

definition new_aggregator :: "int \<Rightarrow> nat \<Rightarrow> aggregator" where
  "new_aggregator interval_s limit =
     \<lparr>interval = interval_s, history_limit = limit, current = None, history = [],
      late_ticks_discarded = 0\<rparr>"

text \<open>Modelled from the spec: step 1 of the algorithm of \<^verbatim>\<open>main.js\<close> (missing),
  \<^verbatim>\<open>bucket_start(t) = floor(t.timestamp / interval) * interval\<close>.\<close>

definition bucket_start_of :: "int \<Rightarrow> tick \<Rightarrow> int" where
  "bucket_start_of interval_s t = \<lfloor>timestamp t / of_int interval_s\<rfloor> * interval_s"

text \<open>Modelled from the spec: the bucket that step 2 of the algorithm of \<^verbatim>\<open>main.js\<close>
  (missing) opens, \<^verbatim>\<open>open = high = low = close = t.price, volume = t.size, tick_count = 1\<close>.\<close>

definition open_bucket :: "int \<Rightarrow> int \<Rightarrow> tick \<Rightarrow> candle" where
  "open_bucket interval_s start t =
     \<lparr>bucket_start = start, interval_seconds = interval_s,
      bar_open = price t, bar_high = price t, bar_low = price t, bar_close = price t,
      volume = tick_size t, tick_count = 1\<rparr>"

text \<open>Modelled from the spec: the update of step 3 of the algorithm of \<^verbatim>\<open>main.js\<close>
  (missing), \<^verbatim>\<open>high = max(high, t.price), low = min(low, t.price), close = t.price,
  volume += t.size, tick_count += 1\<close>.\<close>

definition update_bucket :: "candle \<Rightarrow> tick \<Rightarrow> candle" where
  "update_bucket c t =
     c\<lparr>bar_high := max (bar_high c) (price t), bar_low := min (bar_low c) (price t),
       bar_close := price t, volume := volume c + tick_size t,
       tick_count := tick_count c + 1\<rparr>"

text \<open>Modelled from the spec: appending a closed bucket to the bounded history of the
  aggregator of \<^verbatim>\<open>main.js\<close> (missing); beyond the bound the oldest bucket goes first.\<close>

definition append_history :: "nat \<Rightarrow> candle list \<Rightarrow> candle \<Rightarrow> candle list" where
  "append_history limit h c = drop (Suc (length h) - limit) (h @ [c])"

text \<open>Modelled from the spec: the core algorithm of the aggregator of \<^verbatim>\<open>main.js\<close>
  (missing) for one incoming tick, steps 1 to 4 of section 4.4. The result is the new
  state and the events emitted for this tick, in order.\<close>

definition process_tick :: "aggregator \<Rightarrow> tick \<Rightarrow> aggregator \<times> event list" where
  "process_tick a t =
     (let start = bucket_start_of (interval a) t in
      case current a of
        None \<Rightarrow>
          (let c = open_bucket (interval a) start t
           in (a\<lparr>current := Some c\<rparr>, [BarOpened c]))
      | Some cur \<Rightarrow>
          if bucket_start cur < start then
            (let c = open_bucket (interval a) start t
             in (a\<lparr>current := Some c,
                   history := append_history (history_limit a) (history a) cur\<rparr>,
                 [BarClosed cur, BarOpened c]))
          else if start = bucket_start cur then
            (let c = update_bucket cur t
             in (a\<lparr>current := Some c\<rparr>, [BarUpdated c]))
          else (a\<lparr>late_ticks_discarded := late_ticks_discarded a + 1\<rparr>, []))"

text \<open>Modelled from the spec: the aggregator of \<^verbatim>\<open>main.js\<close> (missing) consuming ticks in
  arrival order. The trace pairs every tick with the events emitted for it.\<close>

fun run :: "aggregator \<Rightarrow> tick list \<Rightarrow> aggregator \<times> (tick \<times> event list) list" where
  "run a [] = (a, [])"
| "run a (t # ts) =
     (case process_tick a t of
        (a', es) \<Rightarrow> (case run a' ts of (a'', tr) \<Rightarrow> (a'', (t, es) # tr)))"

definition events :: "(tick \<times> event list) list \<Rightarrow> event list" where
  "events tr = concat (map snd tr)"

text \<open>The buckets carried by the bar-opened and by the bar-closed events, in order.\<close>

fun opened_bars :: "event list \<Rightarrow> candle list" where
  "opened_bars [] = []"
| "opened_bars (BarOpened c # es) = c # opened_bars es"
| "opened_bars (e # es) = opened_bars es"




text \<open>Ticks of the scenarios of section 8 of the specification.\<close>

definition mk_tick :: "rat \<Rightarrow> rat \<Rightarrow> rat \<Rightarrow> tick" where
  "mk_tick ts p s =
     \<lparr>symbol = ''BTC'', price = p, tick_size = s, tick_side = Unknown, timestamp = ts\<rparr>"



section \<open>The engine and its configuration\<close>

text \<open>
  The engine that consumes \<^verbatim>\<open>window.STREAMING_CHART_CONFIG\<close> is the frontend script
  \<^verbatim>\<open>frontend/main.js\<close>, which is not among the sources. Its configuration, its transport
  connector and its subscription manager are modelled here from the specification
  (sections 4.2, 4.3, 6 and 9).
\<close>

text \<open>Modelled from the spec: the explicit configuration struct
  \<^verbatim>\<open>{endpoint, topic, interval_seconds}\<close> of the engine of \<^verbatim>\<open>main.js\<close> (missing).\<close>

record engine_config =
  cfg_endpoint :: string
  cfg_topic :: string
  cfg_interval_seconds :: int








text \<open>Modelled from the spec: the connection state of the transport connector of
  \<^verbatim>\<open>main.js\<close> (missing), \<^verbatim>\<open>{disconnected, connecting, connected, backing_off}\<close>.\<close>

datatype connection_state = Disconnected | Connecting | Connected | Backing_off

text \<open>Modelled from the spec: what the transport of the connector of \<^verbatim>\<open>main.js\<close>
  (missing) reports: the socket is open, a transport error, an idle timeout, the end of
  the backoff delay, the rejection of the credential.\<close>

datatype transport_event =
  Socket_opened | Transport_fault | Idle_timeout | Backoff_elapsed | Auth_rejected

text \<open>Modelled from the spec: the transport connector of \<^verbatim>\<open>main.js\<close> (missing). It keeps
  the address it was given, the addresses it has opened a connection to (oldest
  first), the retry count, and whether the fatal \<^verbatim>\<open>AuthError\<close> was raised. The address is
  of any type: the connector has no operation on it.\<close>

record 'addr connector =
  conn_state :: connection_state
  conn_endpoint :: "'addr option"
  dialled :: "'addr list"
  retry_count :: nat
  auth_error :: bool

definition new_connector :: "'addr connector" where
  "new_connector =
     \<lparr>conn_state = Disconnected, conn_endpoint = None, dialled = [], retry_count = 0,
      auth_error = False\<rparr>"

text \<open>Modelled from the spec: \<^verbatim>\<open>connect(endpoint_with_embedded_token)\<close> of the connector of
  \<^verbatim>\<open>main.js\<close> (missing), \<^verbatim>\<open>disconnected \<rightarrow> connecting\<close>.\<close>

definition connect :: "'addr \<Rightarrow> 'addr connector \<Rightarrow> 'addr connector" where
  "connect e k =
     (if conn_state k = Disconnected
      then k\<lparr>conn_state := Connecting, conn_endpoint := Some e, dialled := dialled k @ [e]\<rparr>
      else k)"

text \<open>Modelled from the spec: the caller-initiated cancel of the connector of \<^verbatim>\<open>main.js\<close>
  (missing), which closes the transport.\<close>

definition cancel :: "'addr connector \<Rightarrow> 'addr connector" where
  "cancel k = k\<lparr>conn_state := Disconnected\<rparr>"

text \<open>Modelled from the spec: the state machine of the connector of \<^verbatim>\<open>main.js\<close> (missing):
  \<^verbatim>\<open>connecting \<rightarrow> connected\<close>; on a transport error or idle timeout
  \<^verbatim>\<open>connected \<rightarrow> backing_off \<rightarrow> connecting\<close>, the new attempt going to the address kept;
  a rejected credential is terminal and not retried.\<close>

definition transport_step :: "transport_event \<Rightarrow> 'addr connector \<Rightarrow> 'addr connector" where
  "transport_step ev k =
     (case ev of
        Socket_opened \<Rightarrow>
          if conn_state k = Connecting then k\<lparr>conn_state := Connected\<rparr> else k
      | Transport_fault \<Rightarrow>
          if conn_state k = Connected \<or> conn_state k = Connecting
          then k\<lparr>conn_state := Backing_off, retry_count := retry_count k + 1\<rparr> else k
      | Idle_timeout \<Rightarrow>
          if conn_state k = Connected
          then k\<lparr>conn_state := Backing_off, retry_count := retry_count k + 1\<rparr> else k
      | Backoff_elapsed \<Rightarrow>
          if conn_state k = Backing_off
          then (case conn_endpoint k of
                  None \<Rightarrow> k
                | Some e \<Rightarrow> k\<lparr>conn_state := Connecting, dialled := dialled k @ [e]\<rparr>)
          else k
      | Auth_rejected \<Rightarrow>
          if conn_state k = Connecting
          then k\<lparr>conn_state := Disconnected, auth_error := True\<rparr> else k)"

text \<open>Modelled from the spec: the client control frames of \<^verbatim>\<open>main.js\<close> (missing),
  \<^verbatim>\<open>{type: "subscribe"|"unsubscribe", topic}\<close>.\<close>

datatype control_frame = Subscribe string | Unsubscribe string

text \<open>Modelled from the spec: what happens to the engine of \<^verbatim>\<open>main.js\<close> (missing): the
  embedding application starts or stops it, the transport reports, a decoded tick
  arrives.\<close>

datatype engine_event = Start | Stop | Transport transport_event | Tick_received tick

text \<open>Modelled from the spec: the engine instance of \<^verbatim>\<open>main.js\<close> (missing): the
  configuration it was constructed with, its connector, the state of the subscription,
  the control frames it has sent (oldest first), and its aggregator.\<close>

record engine =
  eng_config :: engine_config
  eng_connector :: "string connector"
  eng_subscribed :: bool
  eng_sent :: "control_frame list"
  eng_aggregator :: aggregator

text \<open>Modelled from the spec: the construction of the engine of \<^verbatim>\<open>main.js\<close> (missing) from
  the explicit configuration; the interval of the aggregator is fixed here.\<close>

definition new_engine :: "engine_config \<Rightarrow> nat \<Rightarrow> engine" where
  "new_engine cfg limit =
     \<lparr>eng_config = cfg, eng_connector = new_connector, eng_subscribed = False,
      eng_sent = [], eng_aggregator = new_aggregator (cfg_interval_seconds cfg) limit\<rparr>"

text \<open>Modelled from the spec: one step of the engine of \<^verbatim>\<open>main.js\<close> (missing). Start
  connects to the configured endpoint; stop cancels; on every transition into
  \<^verbatim>\<open>connected\<close> one subscribe frame for the configured topic is sent; when the
  connection is lost the subscription is inactive; a tick that arrives while connected
  goes to the aggregator.\<close>

definition engine_step :: "engine \<Rightarrow> engine_event \<Rightarrow> engine" where
  "engine_step e ev =
     (case ev of
        Start \<Rightarrow> e\<lparr>eng_connector := connect (cfg_endpoint (eng_config e)) (eng_connector e)\<rparr>
      | Stop \<Rightarrow> e\<lparr>eng_connector := cancel (eng_connector e), eng_subscribed := False\<rparr>
      | Transport tev \<Rightarrow>
          (let k = transport_step tev (eng_connector e) in
           if conn_state k = Connected \<and> conn_state (eng_connector e) \<noteq> Connected
           then e\<lparr>eng_connector := k, eng_subscribed := True,
                  eng_sent := eng_sent e @ [Subscribe (cfg_topic (eng_config e))]\<rparr>
           else if conn_state k \<noteq> Connected
           then e\<lparr>eng_connector := k, eng_subscribed := False\<rparr>
           else e\<lparr>eng_connector := k\<rparr>)
      | Tick_received t \<Rightarrow>
          if conn_state (eng_connector e) = Connected
          then e\<lparr>eng_aggregator := fst (process_tick (eng_aggregator e) t)\<rparr>
          else e)"

definition run_engine :: "engine \<Rightarrow> engine_event list \<Rightarrow> engine" where
  "run_engine e evs = foldl engine_step e evs"



section \<open>Properties of the configuration reader and of the engine\<close>

lemma digits10_nonempty: "digits10 n \<noteq> []"
  by (subst digits10.simps) simp











lemma process_tick_interval: "interval (fst (process_tick a t)) = interval a"
  by (cases "process_tick a t" rule: prod.exhaust)
     (auto simp: process_tick_def Let_def split: option.splits if_splits)

lemma connect_dialled:
  assumes "set (dialled k) \<subseteq> {a}" and "conn_endpoint k = None \<or> conn_endpoint k = Some a"
  shows "set (dialled (connect a k)) \<subseteq> {a}"
    and "conn_endpoint (connect a k) = None \<or> conn_endpoint (connect a k) = Some a"
  using assms by (auto simp: connect_def)

lemma cancel_dialled:
  "dialled (cancel k) = dialled k" "conn_endpoint (cancel k) = conn_endpoint k"
  by (simp_all add: cancel_def)

lemma transport_step_dialled:
  assumes "set (dialled k) \<subseteq> {a}" and "conn_endpoint k = None \<or> conn_endpoint k = Some a"
  shows "set (dialled (transport_step ev k)) \<subseteq> {a}"
    and "conn_endpoint (transport_step ev k) = conn_endpoint k"
  using assms by (auto simp: transport_step_def split: transport_event.splits option.splits)

lemma engine_step_inv:
  assumes "eng_config e = cfg"
    and "set (dialled (eng_connector e)) \<subseteq> {cfg_endpoint cfg}"
    and "conn_endpoint (eng_connector e) = None \<or>
         conn_endpoint (eng_connector e) = Some (cfg_endpoint cfg)"
    and "set (eng_sent e) \<subseteq> {Subscribe (cfg_topic cfg)}"
    and "interval (eng_aggregator e) = cfg_interval_seconds cfg"
  shows "eng_config (engine_step e ev) = cfg \<and>
         set (dialled (eng_connector (engine_step e ev))) \<subseteq> {cfg_endpoint cfg} \<and>
         (conn_endpoint (eng_connector (engine_step e ev)) = None \<or>
          conn_endpoint (eng_connector (engine_step e ev)) = Some (cfg_endpoint cfg)) \<and>
         set (eng_sent (engine_step e ev)) \<subseteq> {Subscribe (cfg_topic cfg)} \<and>
         interval (eng_aggregator (engine_step e ev)) = cfg_interval_seconds cfg"
proof (cases ev)
  case Start
  with assms connect_dialled [OF assms(2,3)] show ?thesis
    by (simp add: engine_step_def)
next
  case Stop
  with assms show ?thesis
    by (simp add: engine_step_def cancel_dialled)
next
  case (Transport tev)
  note td = transport_step_dialled [OF assms(2,3), of tev]
  with assms Transport show ?thesis
    by (simp add: engine_step_def Let_def)
next
  case (Tick_received t)
  with assms show ?thesis
    by (simp add: engine_step_def process_tick_interval)
qed

lemma run_engine_inv:
  "eng_config (run_engine (new_engine cfg limit) evs) = cfg \<and>
   set (dialled (eng_connector (run_engine (new_engine cfg limit) evs))) \<subseteq> {cfg_endpoint cfg} \<and>
   (conn_endpoint (eng_connector (run_engine (new_engine cfg limit) evs)) = None \<or>
    conn_endpoint (eng_connector (run_engine (new_engine cfg limit) evs)) =
      Some (cfg_endpoint cfg)) \<and>
   set (eng_sent (run_engine (new_engine cfg limit) evs)) \<subseteq> {Subscribe (cfg_topic cfg)} \<and>
   interval (eng_aggregator (run_engine (new_engine cfg limit) evs)) = cfg_interval_seconds cfg"
proof (induction evs rule: rev_induct)
  case Nil
  show ?case
    by (simp add: run_engine_def new_engine_def new_connector_def new_aggregator_def)
next
  case (snoc ev evs)
  have step: "run_engine (new_engine cfg limit) (evs @ [ev]) =
      engine_step (run_engine (new_engine cfg limit) evs) ev"
    by (simp add: run_engine_def)
  from snoc show ?case
    unfolding step by (intro engine_step_inv) simp_all
qed


lemma engine_demo_run:
  "run_engine (new_engine \<lparr>cfg_endpoint = demo_url, cfg_topic = ''market.data@BTC'',
       cfg_interval_seconds = 60\<rparr> 100)
     [Start, Transport Socket_opened, Transport Transport_fault, Transport Backoff_elapsed,
      Transport Socket_opened] =
   \<lparr>eng_config = \<lparr>cfg_endpoint = demo_url, cfg_topic = ''market.data@BTC'',
       cfg_interval_seconds = 60\<rparr>,
     eng_connector = \<lparr>conn_state = Connected, conn_endpoint = Some demo_url,
       dialled = [demo_url, demo_url], retry_count = 1, auth_error = False\<rparr>,
     eng_subscribed = True,
     eng_sent = [Subscribe ''market.data@BTC'', Subscribe ''market.data@BTC''],
     eng_aggregator = new_aggregator 60 100\<rparr>"
  by (simp add: run_engine_def new_engine_def new_connector_def engine_step_def connect_def
      transport_step_def Let_def)

section \<open>Properties of \<^verbatim>\<open>streaming_chart\<close>\<close>

lemma streaming_chart_Inr_iff:
  \<open>streaming_chart md fs u t h ci = Inr c \<longleftrightarrow>
   (\<exists>html_content css_content js_content msgpack_content.
      fs (path_join (COMPONENT_PATH md) ''index.html'') = Some html_content \<and>
      fs (path_join (COMPONENT_PATH md) ''style.css'') = Some css_content \<and>
      fs (path_join (COMPONENT_PATH md) ''main.js'') = Some js_content \<and>
      fs (path_join (COMPONENT_PATH md) ''msgpack.js'') = Some msgpack_content \<and>
      c = \<lparr>call_html = full_html css_content html_content (config_script u t ci)
             (replace msgpack_content ''export { encodeMessage, decodeMessage };'' [])
             (replace js_content ''import { decodeMessage, encodeMessage } from './msgpack.js';'' []),
           call_height = h, call_scrolling = False\<rparr>)\<close>
  by (auto simp: streaming_chart_def read_text_def Let_def split: option.splits)

lemma demo_streaming_chart:
  "streaming_chart ''/app/sc'' demo_fs demo_url ''market.data@BTC'' h 60 = Inr (demo_call h)"
  by (simp add: streaming_chart_def read_text_def COMPONENT_PATH_def path_join_def demo_fs_def
      demo_call_def Let_def)

lemma full_html_config:
  \<open>\<exists>p s. \<forall>cfg. full_html css h cfg m j = p @ cfg @ s\<close>
proof -
  let ?p = \<open>''\<newline>    <!DOCTYPE html>\<newline>    <html>\<newline>    <head>\<newline>''
     @ ''        <meta charset="UTF-8">\<newline>''
     @ ''        <meta name="viewport" content="width=device-width, initial-scale=1.0">\<newline>''
     @ ''        <script\<newline>''
     @ ''            src="https://unpkg.com/lightweight-charts@4.1.0/dist/lightweight-charts.standalone.production.js">\<newline>''
     @ ''        </script>\<newline>        <style>\<newline>        ''
     @ css
     @ ''\<newline>        </style>\<newline>    </head>\<newline>    <body>\<newline>        ''
     @ h
     @ ''\<newline>        ''\<close>
  let ?s = \<open>''\<newline>        <script>\<newline>        // Msgpack decoder/encoder\<newline>        ''
     @ m
     @ ''\<newline>        </script>\<newline>        <script>\<newline>        // Main chart script\<newline>        ''
     @ j
     @ ''\<newline>        </script>\<newline>    </body>\<newline>    </html>\<newline>    ''\<close>
  have h: \<open>\<forall>cfg. full_html css h cfg m j = ?p @ cfg @ ?s\<close>
    unfolding full_html_def by (simp only: append_assoc) simp
  show ?thesis
    by (rule exI [where x = ?p], rule exI [where x = ?s]) (rule h)
qed




text \<open>
  Claim C6. The argument \<open>height\<close> becomes the height of the render surface unchanged, and
  it reaches nothing else: a call with another height hands over the same document and
  the same \<^verbatim>\<open>scrolling\<close> flag, only the height differs.
\<close>

theorem streaming_chart_height_passthrough:
  assumes \<open>streaming_chart module_dir fs websocket_url topic height candle_interval = Inr c\<close>
  shows \<open>call_height c = height \<and>
         streaming_chart module_dir fs websocket_url topic height' candle_interval =
           Inr (c\<lparr>call_height := height'\<rparr>)\<close>
  using assms unfolding streaming_chart_Inr_iff by auto

theorem streaming_chart_height_passthrough_witness:
  \<open>call_height (demo_call 500) = 500 \<and>
   streaming_chart ''/app/sc'' demo_fs demo_url ''market.data@BTC'' 720 60 =
     Inr ((demo_call 500)\<lparr>call_height := 720\<rparr>)\<close>
  using streaming_chart_height_passthrough [OF demo_streaming_chart [of 500], of 720] .

lemma config_script_url:
  \<open>\<exists>p s. \<forall>u. config_script u t ci = (p @ ''websocketUrl: "'') @ u @ (''",\<newline>'' @ s)\<close>
proof -
  let ?p = \<open>''\<newline>    <script>\<newline>        window.STREAMING_CHART_CONFIG = {\<newline>            ''\<close>
  let ?s = \<open>''            topic: "'' @ t @ ''",\<newline>''
     @ ''            candleInterval: '' @ str_int ci @ ''\<newline>''
     @ ''        };\<newline>    </script>\<newline>    ''\<close>
  have h: \<open>\<forall>u. config_script u t ci = (?p @ ''websocketUrl: "'') @ u @ (''",\<newline>'' @ ?s)\<close>
    unfolding config_script_def by simp
  show ?thesis
    by (rule exI [where x = ?p], rule exI [where x = ?s]) (rule h)
qed

text \<open>
  Claim C7. The endpoint, bearer token included, is an opaque string. For
  \<^verbatim>\<open>streaming_chart\<close> there are a fixed text \<open>p\<close> before and a fixed text \<open>s\<close> after such
  that for every endpoint \<open>u\<close> the document is \<open>p\<close>, then \<^verbatim>\<open>websocketUrl: "\<close>, then \<open>u\<close>
  itself, then the closing quote and \<open>s\<close>: no character of the endpoint is read, changed,
  dropped or added. For the engine, every connection it ever opens, the first and
  every reconnection, goes to that same string, and the address it keeps is never
  replaced by another.
\<close>

theorem streaming_chart_url_opaque:
  assumes \<open>streaming_chart module_dir fs websocket_url topic height candle_interval = Inr c\<close>
  shows \<open>(\<exists>p s. \<forall>u. streaming_chart module_dir fs u topic height candle_interval =
           Inr (c\<lparr>call_html := (p @ ''websocketUrl: "'') @ u @ (''",\<newline>'' @ s)\<rparr>)) \<and>
         (\<forall>limit evs.
            set (dialled (eng_connector (run_engine (new_engine \<lparr>cfg_endpoint = websocket_url,
                 cfg_topic = topic, cfg_interval_seconds = candle_interval\<rparr> limit) evs)))
              \<subseteq> {websocket_url} \<and>
            (conn_endpoint (eng_connector (run_engine (new_engine \<lparr>cfg_endpoint = websocket_url,
                 cfg_topic = topic, cfg_interval_seconds = candle_interval\<rparr> limit) evs)) = None \<or>
             conn_endpoint (eng_connector (run_engine (new_engine \<lparr>cfg_endpoint = websocket_url,
                 cfg_topic = topic, cfg_interval_seconds = candle_interval\<rparr> limit) evs)) =
               Some websocket_url))\<close>
proof -
  from assms obtain h css js m where files:
      \<open>fs (path_join (COMPONENT_PATH module_dir) ''index.html'') = Some h\<close>
      \<open>fs (path_join (COMPONENT_PATH module_dir) ''style.css'') = Some css\<close>
      \<open>fs (path_join (COMPONENT_PATH module_dir) ''main.js'') = Some js\<close>
      \<open>fs (path_join (COMPONENT_PATH module_dir) ''msgpack.js'') = Some m\<close>
    and c: \<open>call_height c = height\<close> \<open>call_scrolling c = False\<close>
    unfolding streaming_chart_Inr_iff by auto
  let ?m = \<open>replace m ''export { encodeMessage, decodeMessage };'' []\<close>
  let ?j = \<open>replace js ''import { decodeMessage, encodeMessage } from './msgpack.js';'' []\<close>
  have run: \<open>streaming_chart module_dir fs u topic height candle_interval =
      Inr (c\<lparr>call_html := full_html css h (config_script u topic candle_interval) ?m ?j\<rparr>)\<close> for u
    unfolding streaming_chart_Inr_iff using files c by auto
  obtain p s where cfg:
      \<open>\<And>u. config_script u topic candle_interval = (p @ ''websocketUrl: "'') @ u @ (''",\<newline>'' @ s)\<close>
    using config_script_url by blast
  obtain p' s' where doc: \<open>\<And>x. full_html css h x ?m ?j = p' @ x @ s'\<close>
    using full_html_config by blast
  have \<open>full_html css h (config_script u topic candle_interval) ?m ?j =
      ((p' @ p) @ ''websocketUrl: "'') @ u @ (''",\<newline>'' @ (s @ s'))\<close> for u
    unfolding doc cfg by (simp only: append_assoc)
  with run have p1: \<open>\<exists>p s. \<forall>u. streaming_chart module_dir fs u topic height candle_interval =
           Inr (c\<lparr>call_html := (p @ ''websocketUrl: "'') @ u @ (''",\<newline>'' @ s)\<rparr>)\<close>
    by metis
  let ?cfg = \<open>\<lparr>cfg_endpoint = websocket_url, cfg_topic = topic,
                cfg_interval_seconds = candle_interval\<rparr>\<close>
  have p2: \<open>\<forall>limit evs.
            set (dialled (eng_connector (run_engine (new_engine ?cfg limit) evs)))
              \<subseteq> {websocket_url} \<and>
            (conn_endpoint (eng_connector (run_engine (new_engine ?cfg limit) evs)) = None \<or>
             conn_endpoint (eng_connector (run_engine (new_engine ?cfg limit) evs)) =
               Some websocket_url)\<close>
    using run_engine_inv [of ?cfg] by simp
  show ?thesis
    by (rule conjI [OF p1 p2])
qed

theorem streaming_chart_url_opaque_witness:
  \<open>(\<exists>p s. \<forall>u. streaming_chart ''/app/sc'' demo_fs u ''market.data@BTC'' 500 60 =
           Inr ((demo_call 500)\<lparr>call_html := (p @ ''websocketUrl: "'') @ u @ (''",\<newline>'' @ s)\<rparr>)) \<and>
   set [demo_url, demo_url] \<subseteq> {demo_url} \<and>
   (Some demo_url = None \<or> Some demo_url = Some demo_url)\<close>
proof -
  note t = streaming_chart_url_opaque [OF demo_streaming_chart [of 500]]
  from t have a: \<open>\<exists>p s. \<forall>u. streaming_chart ''/app/sc'' demo_fs u ''market.data@BTC'' 500 60 =
           Inr ((demo_call 500)\<lparr>call_html := (p @ ''websocketUrl: "'') @ u @ (''",\<newline>'' @ s)\<rparr>)\<close>
    by (rule conjunct1)
  from t [THEN conjunct2, rule_format, of 100 "[Start, Transport Socket_opened,
      Transport Transport_fault, Transport Backoff_elapsed, Transport Socket_opened]",
      unfolded engine_demo_run]
  have b: \<open>set [demo_url, demo_url] \<subseteq> {demo_url} \<and>
   (Some demo_url = None \<or> Some demo_url = Some demo_url)\<close>
    by simp
  from a b show ?thesis by (rule conjI)
qed

text \<open>
  Claim C8. \<^verbatim>\<open>streaming_chart\<close> reads \<^verbatim>\<open>index.html\<close>, \<^verbatim>\<open>style.css\<close>, \<^verbatim>\<open>main.js\<close> and
  \<^verbatim>\<open>msgpack.js\<close> of the frontend directory next to the module with no handler around the
  reads: the call raises exactly when one of the four is absent, the exception is the
  \<^verbatim>\<open>FileNotFoundError\<close> of the first absent one, and then nothing is rendered; it reaches
  the render surface exactly when all four are there.
\<close>

theorem streaming_chart_missing_file:
  \<open>(streaming_chart module_dir fs websocket_url topic height candle_interval = Inl e \<longleftrightarrow>
      (\<exists>p. find (\<lambda>p. fs p = None) (frontend_files module_dir) = Some p \<and>
           e = FileNotFoundError p)) \<and>
   ((\<exists>c. streaming_chart module_dir fs websocket_url topic height candle_interval = Inr c) \<longleftrightarrow>
      (\<forall>p \<in> set (frontend_files module_dir). fs p \<noteq> None))\<close>
  by (auto simp: streaming_chart_def read_text_def frontend_files_def Let_def
      split: option.splits)

theorem streaming_chart_missing_file_witness:
  \<open>streaming_chart ''/app/sc'' (\<lambda>p. None) demo_url ''market.data@BTC'' 500 60 =
     Inl (FileNotFoundError ''/app/sc/frontend/index.html'') \<and>
   streaming_chart ''/app/sc'' (demo_fs(''/app/sc/frontend/msgpack.js'' := None))
       demo_url ''market.data@BTC'' 500 60 =
     Inl (FileNotFoundError ''/app/sc/frontend/msgpack.js'') \<and>
   (\<exists>c. streaming_chart ''/app/sc'' demo_fs demo_url ''market.data@BTC'' 500 60 = Inr c)\<close>
proof -
  have files: \<open>frontend_files ''/app/sc'' =
      [''/app/sc/frontend/index.html'', ''/app/sc/frontend/style.css'',
       ''/app/sc/frontend/main.js'', ''/app/sc/frontend/msgpack.js'']\<close>
    by (simp add: frontend_files_def COMPONENT_PATH_def path_join_def)
  have a: \<open>find (\<lambda>p. (\<lambda>p. None :: string option) p = None) (frontend_files ''/app/sc'') =
      Some ''/app/sc/frontend/index.html''\<close>
    unfolding files by simp
  have b: \<open>find (\<lambda>p. (demo_fs(''/app/sc/frontend/msgpack.js'' := None)) p = None)
      (frontend_files ''/app/sc'') = Some ''/app/sc/frontend/msgpack.js''\<close>
    unfolding files by (simp add: demo_fs_def)
  have c: \<open>\<forall>p \<in> set (frontend_files ''/app/sc''). demo_fs p \<noteq> None\<close>
    unfolding files by (simp add: demo_fs_def)
  note mf = streaming_chart_missing_file
  from a b c show ?thesis
    using mf [of \<open>''/app/sc''\<close> \<open>\<lambda>p. None\<close> demo_url \<open>''market.data@BTC''\<close> 500 60
               \<open>FileNotFoundError ''/app/sc/frontend/index.html''\<close>]
          mf [of \<open>''/app/sc''\<close> \<open>demo_fs(''/app/sc/frontend/msgpack.js'' := None)\<close> demo_url
               \<open>''market.data@BTC''\<close> 500 60 \<open>FileNotFoundError ''/app/sc/frontend/msgpack.js''\<close>]
          mf [of \<open>''/app/sc''\<close> demo_fs demo_url \<open>''market.data@BTC''\<close> 500 60]
    by blast
qed

section \<open>Properties of \<^verbatim>\<open>render_table\<close>\<close>








section \<open>Properties of \<^verbatim>\<open>export_to_markdown\<close>\<close>

lemma digit_char_inj:
  assumes "a < 10" "b < 10" "char_of (48 + a :: nat) = (char_of (48 + b) :: char)"
  shows "a = b"
proof -
  from assms(3) have "(48 + a) mod 256 = (48 + b) mod 256"
    by (simp add: char_of_eq_iff take_bit_eq_mod)
  with assms(1,2) show ?thesis by simp
qed

lemma digits10_inj: "digits10 n = digits10 m \<Longrightarrow> n = m"
proof (induction n arbitrary: m rule: digits10.induct)
  case (1 n)
  show ?case
  proof (cases "n < 10")
    case small: True
    show ?thesis
    proof (cases "m < 10")
      case True
      with small "1.prems" show ?thesis
        by (simp add: digits10.simps [of n] digits10.simps [of m] digit_char_inj)
    next
      case False
      with small "1.prems" digits10_nonempty [of "m div 10"] show ?thesis
        by (simp add: digits10.simps [of n] digits10.simps [of m])
    qed
  next
    case big: False
    show ?thesis
    proof (cases "m < 10")
      case True
      with big "1.prems" digits10_nonempty [of "n div 10"] show ?thesis
        by (simp add: digits10.simps [of n] digits10.simps [of m])
    next
      case False
      with big "1.prems" have eq: "digits10 (n div 10) = digits10 (m div 10)"
        and ch: "char_of (48 + n mod 10) = (char_of (48 + m mod 10) :: char)"
        by (simp_all add: digits10.simps [of n] digits10.simps [of m])
      from "1.IH" [OF big eq] have "n div 10 = m div 10" .
      moreover from ch have "n mod 10 = m mod 10"
        by (intro digit_char_inj) simp_all
      ultimately show ?thesis
        by (metis div_mult_mod_eq)
    qed
  qed
qed

lemma image_name_inj: "image_name np a = image_name np b \<Longrightarrow> a = b"
  by (auto simp: image_name_def str_int_def dest: digits10_inj)

lemma image_name_not_markdown: "image_name np a \<noteq> markdown_name np"
  by (simp add: image_name_def markdown_name_def)

lemma open_w_Inr:
  assumes "open_w d p = Inr d'"
  shows "d' = d(p \<mapsto> File [])"
  using assms by (auto simp: open_w_def split: if_splits option.splits node.splits)

lemma write_image_Inr:
  assumes "write_image fig p d = Inr d'"
  shows "\<exists>png. fig = Inr png \<and> d' = d(p \<mapsto> File png)"
  using assms
  by (auto simp: write_image_def write_file_def split: sum.splits dest!: open_w_Inr)

lemma write_images_other:
  assumes "\<And>k. p \<noteq> image_name np (i + k)"
  shows "snd (write_images np i figs d) p = d p"
  using assms
proof (induction figs arbitrary: i d)
  case Nil
  then show ?case by simp
next
  case (Cons fig figs)
  show ?case
  proof (cases "write_image fig (image_name np i) d")
    case (Inl e)
    then show ?thesis by simp
  next
    case (Inr d1)
    from write_image_Inr [OF Inr] obtain png where d1: "d1 = d(image_name np i \<mapsto> File png)"
      by blast
    have "p \<noteq> image_name np i" using Cons.prems [of 0] by simp
    then have a: "d1 p = d p" by (simp add: d1)
    have "\<And>k. p \<noteq> image_name np (Suc i + k)" using Cons.prems [of "Suc _"] by simp
    from Cons.IH [OF this] have "snd (write_images np (Suc i) figs d1) p = d1 p" .
    with a Inr show ?thesis by simp
  qed
qed

lemma write_images_fail:
  assumes "write_images np i figs d = (Some e, d')"
  shows "\<exists>k<length figs. write_image (figs ! k) (image_name np (i + k)) d' = Inl e \<and>
           (\<forall>j<k. \<exists>png. figs ! j = Inr png \<and> d' (image_name np (i + j)) = Some (File png))"
  using assms
proof (induction figs arbitrary: i d)
  case Nil
  then show ?case by simp
next
  case (Cons fig figs)
  show ?case
  proof (cases "write_image fig (image_name np i) d")
    case (Inl e')
    with Cons.prems have "e' = e" "d' = d" by simp_all
    with Inl have "write_image ((fig # figs) ! 0) (image_name np (i + 0)) d' = Inl e" by simp
    then show ?thesis by (intro exI [of _ 0]) simp
  next
    case (Inr d1)
    from write_image_Inr [OF Inr] obtain png where
      fig: "fig = Inr png" and d1: "d1 = d(image_name np i \<mapsto> File png)" by blast
    from Cons.prems Inr have rec: "write_images np (Suc i) figs d1 = (Some e, d')" by simp
    from Cons.IH [OF rec] obtain k where k: "k < length figs"
      and fail: "write_image (figs ! k) (image_name np (Suc i + k)) d' = Inl e"
      and kept: "\<forall>j<k. \<exists>png. figs ! j = Inr png \<and> d' (image_name np (Suc i + j)) = Some (File png)"
      by blast
    have "\<And>k. image_name np i \<noteq> image_name np (Suc i + k)"
      using image_name_inj [of np i] by fastforce
    from write_images_other [OF this, of figs d1] rec
    have first: "d' (image_name np i) = Some (File png)" by (simp add: d1)
    have "\<forall>j<Suc k. \<exists>png. (fig # figs) ! j = Inr png \<and>
        d' (image_name np (i + j)) = Some (File png)"
    proof (intro allI impI)
      fix j assume "j < Suc k"
      show "\<exists>png. (fig # figs) ! j = Inr png \<and> d' (image_name np (i + j)) = Some (File png)"
      proof (cases j)
        case 0
        with fig first show ?thesis by simp
      next
        case (Suc j')
        with \<open>j < Suc k\<close> kept show ?thesis by simp
      qed
    qed
    moreover have "write_image ((fig # figs) ! Suc k) (image_name np (i + Suc k)) d' = Inl e"
      using fail by simp
    moreover have "Suc k < length (fig # figs)" using k by simp
    ultimately show ?thesis by blast
  qed
qed

lemma write_images_ok:
  assumes "write_images np i figs d = (None, d')"
  shows "\<forall>j<length figs. \<exists>png. figs ! j = Inr png \<and> d' (image_name np (i + j)) = Some (File png)"
  using assms
proof (induction figs arbitrary: i d)
  case Nil
  then show ?case by simp
next
  case (Cons fig figs)
  show ?case
  proof (cases "write_image fig (image_name np i) d")
    case (Inl e')
    with Cons.prems show ?thesis by simp
  next
    case (Inr d1)
    from write_image_Inr [OF Inr] obtain png where
      fig: "fig = Inr png" and d1: "d1 = d(image_name np i \<mapsto> File png)" by blast
    from Cons.prems Inr have rec: "write_images np (Suc i) figs d1 = (None, d')" by simp
    note kept = Cons.IH [OF rec]
    have "\<And>k. image_name np i \<noteq> image_name np (Suc i + k)"
      using image_name_inj [of np i] by fastforce
    from write_images_other [OF this, of figs d1] rec
    have first: "d' (image_name np i) = Some (File png)" by (simp add: d1)
    show ?thesis
    proof (intro allI impI)
      fix j assume j: "j < length (fig # figs)"
      show "\<exists>png. (fig # figs) ! j = Inr png \<and> d' (image_name np (i + j)) = Some (File png)"
      proof (cases j)
        case 0
        with fig first show ?thesis by simp
      next
        case (Suc j')
        with j kept show ?thesis by simp
      qed
    qed
  qed
qed

lemma write_markdown_other:
  assumes "p \<noteq> markdown_name np"
  shows "snd (write_markdown np dfs n d) p = d p"
  using assms
  by (auto simp: write_markdown_def split: sum.splits prod.splits option.splits dest!: open_w_Inr)

text \<open>
  Claim C10. Once the output directory is there, \<^verbatim>\<open>export_to_markdown\<close> returns a boolean
  and never raises: \<^verbatim>\<open>True\<close> exactly when every figure image and the markdown file were
  written without an exception, \<^verbatim>\<open>False\<close> when one of these writes raised. It is not
  atomic: when the image of figure \<open>k\<close> fails, the images of the figures before \<open>k\<close> are
  on the disk afterwards, and when the markdown file fails, all images are. An exception
  of the directory step, which stands before the \<^verbatim>\<open>try\<close>, leaves the function as it is,
  with the disk unchanged.
\<close>

theorem export_to_markdown_outcome:
  "(\<forall>d1. ensure_dir d name_path = Inr d1 \<longrightarrow>
      fst (export_to_markdown df_list fig_list name_path d) =
        Inr (fst (write_images name_path 0 fig_list d1) = None \<and>
             fst (write_markdown name_path df_list (length fig_list)
                    (snd (write_images name_path 0 fig_list d1))) = None)) \<and>
   (\<forall>d1 e d2. ensure_dir d name_path = Inr d1 \<and>
        write_images name_path 0 fig_list d1 = (Some e, d2) \<longrightarrow>
      snd (export_to_markdown df_list fig_list name_path d) = d2 \<and>
      (\<exists>k<length fig_list.
         write_image (fig_list ! k) (image_name name_path k) d2 = Inl e \<and>
         (\<forall>j<k. \<exists>png. fig_list ! j = Inr png \<and>
            snd (export_to_markdown df_list fig_list name_path d) (image_name name_path j) =
              Some (File png)))) \<and>
   (\<forall>d1 d2 e d3. ensure_dir d name_path = Inr d1 \<and>
        write_images name_path 0 fig_list d1 = (None, d2) \<and>
        write_markdown name_path df_list (length fig_list) d2 = (Some e, d3) \<longrightarrow>
      (\<forall>j<length fig_list. \<exists>png. fig_list ! j = Inr png \<and>
         snd (export_to_markdown df_list fig_list name_path d) (image_name name_path j) =
           Some (File png))) \<and>
   (\<forall>e. ensure_dir d name_path = Inl e \<longrightarrow>
      export_to_markdown df_list fig_list name_path d = (Inl e, d))"
proof -
  let ?r = "export_to_markdown df_list fig_list name_path d"
  have p1: "\<forall>d1. ensure_dir d name_path = Inr d1 \<longrightarrow>
      fst ?r =
        Inr (fst (write_images name_path 0 fig_list d1) = None \<and>
             fst (write_markdown name_path df_list (length fig_list)
                    (snd (write_images name_path 0 fig_list d1))) = None)"
    by (auto simp: export_to_markdown_def split: prod.splits option.splits)
  have p2: "\<forall>d1 e d2. ensure_dir d name_path = Inr d1 \<and>
        write_images name_path 0 fig_list d1 = (Some e, d2) \<longrightarrow>
      snd ?r = d2 \<and>
      (\<exists>k<length fig_list.
         write_image (fig_list ! k) (image_name name_path k) d2 = Inl e \<and>
         (\<forall>j<k. \<exists>png. fig_list ! j = Inr png \<and>
            snd ?r (image_name name_path j) = Some (File png)))"
  proof (intro allI impI)
    fix d1 e d2
    assume a: "ensure_dir d name_path = Inr d1 \<and>
        write_images name_path 0 fig_list d1 = (Some e, d2)"
    then have r: "?r = (Inr False, d2)"
      by (simp add: export_to_markdown_def)
    from a write_images_fail [of name_path 0 fig_list d1 e d2]
    have "\<exists>k<length fig_list.
        write_image (fig_list ! k) (image_name name_path k) d2 = Inl e \<and>
        (\<forall>j<k. \<exists>png. fig_list ! j = Inr png \<and> d2 (image_name name_path j) = Some (File png))"
      by simp
    then show "snd ?r = d2 \<and>
      (\<exists>k<length fig_list.
         write_image (fig_list ! k) (image_name name_path k) d2 = Inl e \<and>
         (\<forall>j<k. \<exists>png. fig_list ! j = Inr png \<and>
            snd ?r (image_name name_path j) = Some (File png)))"
      unfolding r by simp
  qed
  have p3: "\<forall>d1 d2 e d3. ensure_dir d name_path = Inr d1 \<and>
        write_images name_path 0 fig_list d1 = (None, d2) \<and>
        write_markdown name_path df_list (length fig_list) d2 = (Some e, d3) \<longrightarrow>
      (\<forall>j<length fig_list. \<exists>png. fig_list ! j = Inr png \<and>
         snd ?r (image_name name_path j) = Some (File png))"
  proof (intro allI impI)
    fix d1 d2 e d3 j
    assume a: "ensure_dir d name_path = Inr d1 \<and>
        write_images name_path 0 fig_list d1 = (None, d2) \<and>
        write_markdown name_path df_list (length fig_list) d2 = (Some e, d3)"
      and j: "j < length fig_list"
    then have r: "?r = (Inr False, d3)"
      by (simp add: export_to_markdown_def)
    from a j write_images_ok [of name_path 0 fig_list d1 d2]
    obtain png where png: "fig_list ! j = Inr png" "d2 (image_name name_path j) = Some (File png)"
      by auto
    have "snd (write_markdown name_path df_list (length fig_list) d2) (image_name name_path j) =
        d2 (image_name name_path j)"
      by (rule write_markdown_other) (rule image_name_not_markdown)
    with a have "d3 (image_name name_path j) = d2 (image_name name_path j)" by simp
    with png show "\<exists>png. fig_list ! j = Inr png \<and>
         snd ?r (image_name name_path j) = Some (File png)"
      unfolding r by simp
  qed
  have p4: "\<forall>e. ensure_dir d name_path = Inl e \<longrightarrow> ?r = (Inl e, d)"
    by (simp add: export_to_markdown_def)
  show ?thesis
    by (rule conjI [OF p1 conjI [OF p2 conjI [OF p3 p4]]])
qed

lemma digits10_0: "digits10 0 = ''0''" by code_simp
lemma digits10_1: "digits10 (Suc 0) = ''1''" by code_simp

lemmas export_eval =
  export_to_markdown_def ensure_dir_def path_exists_def makedirs_def ancestors_def
  write_image_def write_file_def open_w_def dirname_def is_dir_def image_name_def
  markdown_name_def write_markdown_def image_links_def str_int_def digits10_0 digits10_1

lemma export_demo_image_fails:
  "ensure_dir Map.empty ''out'' = Inr [''out'' \<mapsto> Dir]"
  "write_images ''out'' 0 [Inr ''PNG0'', Inl (ValueError ''kaleido'')] [''out'' \<mapsto> Dir] =
     (Some (ValueError ''kaleido''), [''out'' \<mapsto> Dir, ''out/out_image0.png'' \<mapsto> File ''PNG0''])"
  by (simp_all add: export_eval)

lemma export_demo_markdown_fails:
  "write_images ''out'' 0 [Inr ''PNG0''] [''out'' \<mapsto> Dir] =
     (None, [''out'' \<mapsto> Dir, ''out/out_image0.png'' \<mapsto> File ''PNG0''])"
  "write_markdown ''out'' [Inr ''|a|'', Inl (ValueError ''tabulate'')] (length [Inr ''PNG0'' :: figure])
      [''out'' \<mapsto> Dir, ''out/out_image0.png'' \<mapsto> File ''PNG0''] =
     (Some (ValueError ''tabulate''),
      [''out'' \<mapsto> Dir, ''out/out_image0.png'' \<mapsto> File ''PNG0'',
       ''out/out_markdown.md'' \<mapsto> File ''|a|\<newline>\<newline>''])"
  by (simp_all add: export_eval)

lemma export_demo_ok:
  "write_markdown ''out'' [Inr ''|a|''] (length [Inr ''PNG0'' :: figure])
      [''out'' \<mapsto> Dir, ''out/out_image0.png'' \<mapsto> File ''PNG0''] =
     (None,
      [''out'' \<mapsto> Dir, ''out/out_image0.png'' \<mapsto> File ''PNG0'',
       ''out/out_markdown.md'' \<mapsto> File ''|a|\<newline>\<newline>![Chart](out_image0.png)\<newline>''])"
  by (simp add: export_eval)

lemma export_demo_no_dir:
  "ensure_dir [''a'' \<mapsto> File ''x''] ''a/b'' = Inl (NotADirectoryError ''a/b'')"
  by (simp add: export_eval)

theorem export_to_markdown_outcome_witness:
  "fst (export_to_markdown [Inr ''|a|''] [Inr ''PNG0''] ''out'' Map.empty) = Inr True \<and>
   fst (export_to_markdown [Inr ''|a|''] [Inr ''PNG0'', Inl (ValueError ''kaleido'')] ''out''
          Map.empty) = Inr False \<and>
   snd (export_to_markdown [Inr ''|a|''] [Inr ''PNG0'', Inl (ValueError ''kaleido'')] ''out''
          Map.empty) ''out/out_image0.png'' = Some (File ''PNG0'') \<and>
   fst (export_to_markdown [Inr ''|a|'', Inl (ValueError ''tabulate'')] [Inr ''PNG0''] ''out''
          Map.empty) = Inr False \<and>
   snd (export_to_markdown [Inr ''|a|'', Inl (ValueError ''tabulate'')] [Inr ''PNG0''] ''out''
          Map.empty) ''out/out_image0.png'' = Some (File ''PNG0'') \<and>
   export_to_markdown [Inr ''|a|''] [Inr ''PNG0''] ''a/b'' [''a'' \<mapsto> File ''x''] =
     (Inl (NotADirectoryError ''a/b''), [''a'' \<mapsto> File ''x''])"
proof -
  note t = export_to_markdown_outcome
  let ?d1 = "[''out'' \<mapsto> Dir] :: disk"
  let ?d2 = "[''out'' \<mapsto> Dir, ''out/out_image0.png'' \<mapsto> File ''PNG0''] :: disk"
  have name0: "image_name ''out'' 0 = ''out/out_image0.png''"
    by (simp add: export_eval)
  have c1: "fst (export_to_markdown [Inr ''|a|''] [Inr ''PNG0''] ''out'' Map.empty) = Inr True"
    using t [of Map.empty "''out''" "[Inr ''|a|'']" "[Inr ''PNG0'']"]
      export_demo_image_fails(1) export_demo_markdown_fails(1) export_demo_ok
    by simp
  have c2: "fst (export_to_markdown [Inr ''|a|''] [Inr ''PNG0'', Inl (ValueError ''kaleido'')] ''out''
          Map.empty) = Inr False"
    using t [of Map.empty "''out''" "[Inr ''|a|'']" "[Inr ''PNG0'', Inl (ValueError ''kaleido'')]"]
      export_demo_image_fails
    by simp
  have c3: "snd (export_to_markdown [Inr ''|a|''] [Inr ''PNG0'', Inl (ValueError ''kaleido'')] ''out''
          Map.empty) ''out/out_image0.png'' = Some (File ''PNG0'')"
    using t [of Map.empty "''out''" "[Inr ''|a|'']" "[Inr ''PNG0'', Inl (ValueError ''kaleido'')]"]
      export_demo_image_fails
    by simp
  have c4: "fst (export_to_markdown [Inr ''|a|'', Inl (ValueError ''tabulate'')] [Inr ''PNG0''] ''out''
          Map.empty) = Inr False"
    using t [of Map.empty "''out''" "[Inr ''|a|'', Inl (ValueError ''tabulate'')]" "[Inr ''PNG0'']"]
      export_demo_image_fails(1) export_demo_markdown_fails
    by simp
  have c5: "snd (export_to_markdown [Inr ''|a|'', Inl (ValueError ''tabulate'')] [Inr ''PNG0''] ''out''
          Map.empty) ''out/out_image0.png'' = Some (File ''PNG0'')"
    using t [of Map.empty "''out''" "[Inr ''|a|'', Inl (ValueError ''tabulate'')]" "[Inr ''PNG0'']"]
      export_demo_image_fails(1) export_demo_markdown_fails name0
    by simp
  have c6: "export_to_markdown [Inr ''|a|''] [Inr ''PNG0''] ''a/b'' [''a'' \<mapsto> File ''x''] =
     (Inl (NotADirectoryError ''a/b''), [''a'' \<mapsto> File ''x''])"
    using t [of "[''a'' \<mapsto> File ''x'']" "''a/b''" "[Inr ''|a|'']" "[Inr ''PNG0'']"]
      export_demo_no_dir
    by simp
  from c1 c2 c3 c4 c5 c6 show ?thesis by blast
qed

section \<open>Properties of the candle aggregator\<close>

lemma opened_bars_append: "opened_bars (es @ es') = opened_bars es @ opened_bars es'"
  by (induction es rule: opened_bars.induct) simp_all


lemma events_Cons: "events ((t, es) # tr) = es @ events tr"
  by (simp add: events_def)




lemma process_tick_cases:
  assumes "process_tick a t = (a', es)"
  obtains
    (first) c where "current a = None" "c = open_bucket (interval a) (bucket_start_of (interval a) t) t"
      "a' = a\<lparr>current := Some c\<rparr>" "es = [BarOpened c]"
  | (rollover) cur c where "current a = Some cur"
      "bucket_start cur < bucket_start_of (interval a) t"
      "c = open_bucket (interval a) (bucket_start_of (interval a) t) t"
      "a' = a\<lparr>current := Some c, history := append_history (history_limit a) (history a) cur\<rparr>"
      "es = [BarClosed cur, BarOpened c]"
  | (update) cur where "current a = Some cur"
      "bucket_start_of (interval a) t = bucket_start cur"
      "a' = a\<lparr>current := Some (update_bucket cur t)\<rparr>" "es = [BarUpdated (update_bucket cur t)]"
  | (late) cur where "current a = Some cur"
      "bucket_start_of (interval a) t < bucket_start cur"
      "a' = a\<lparr>late_ticks_discarded := late_ticks_discarded a + 1\<rparr>" "es = []"
proof (cases "current a")
  case None
  with assms first show ?thesis by (simp add: process_tick_def Let_def)
next
  case (Some cur)
  consider "bucket_start cur < bucket_start_of (interval a) t"
    | "bucket_start_of (interval a) t = bucket_start cur"
    | "bucket_start_of (interval a) t < bucket_start cur" by linarith
  then show ?thesis
  proof cases
    case 1
    with assms Some rollover show ?thesis by (simp add: process_tick_def Let_def)
  next
    case 2
    with assms Some update show ?thesis by (simp add: process_tick_def Let_def)
  next
    case 3
    with assms Some late show ?thesis by (simp add: process_tick_def Let_def)
  qed
qed

lemma run_opened_increasing:
  assumes "run a ts = (a', tr)"
  shows "sorted_wrt (<) (map bucket_start (opened_bars (events tr))) \<and>
         (\<forall>cur. current a = Some cur \<longrightarrow>
            (\<forall>c \<in> set (opened_bars (events tr)). bucket_start cur < bucket_start c))"
  using assms
proof (induction ts arbitrary: a a' tr)
  case Nil
  then show ?case by (simp add: events_def)
next
  case (Cons t ts)
  obtain a1 es where step: "process_tick a t = (a1, es)" by (cases "process_tick a t")
  obtain a2 tr' where rest: "run a1 ts = (a2, tr')" by (cases "run a1 ts")
  from Cons.prems step rest have tr: "tr = (t, es) # tr'" by simp
  note IH = Cons.IH [OF rest]
  from step show ?case
  proof (cases rule: process_tick_cases)
    case (first c)
    with IH show ?thesis by (simp add: tr events_Cons)
  next
    case (rollover cur c)
    have "bucket_start c = bucket_start_of (interval a) t"
      by (simp add: rollover(3) open_bucket_def)
    with rollover IH show ?thesis by (fastforce simp: tr events_Cons)
  next
    case (update cur)
    have "bucket_start (update_bucket cur t) = bucket_start cur"
      by (simp add: update_bucket_def)
    with update IH show ?thesis by (simp add: tr events_Cons)
  next
    case (late cur)
    with IH show ?thesis by (simp add: tr events_Cons)
  qed
qed








lemma demo_run_eval:
  "run (new_aggregator 60 100) [mk_tick 5 100 1, mk_tick 65 110 1] =
     (\<lparr>interval = 60, history_limit = 100,
        current = Some (open_bucket 60 60 (mk_tick 65 110 1)),
        history = [open_bucket 60 0 (mk_tick 5 100 1)], late_ticks_discarded = 0\<rparr>,
      [(mk_tick 5 100 1, [BarOpened (open_bucket 60 0 (mk_tick 5 100 1))]),
       (mk_tick 65 110 1, [BarClosed (open_bucket 60 0 (mk_tick 5 100 1)),
                           BarOpened (open_bucket 60 60 (mk_tick 65 110 1))])])"
  by code_simp

text \<open>The model on the scenarios of section 8 of the specification.\<close>

lemma scenario_single_interval:
  "current (fst (run (new_aggregator 60 100)
      [mk_tick 0 100 1, mk_tick 10 105 2, mk_tick 30 98 1])) =
     Some \<lparr>bucket_start = 0, interval_seconds = 60, bar_open = 100, bar_high = 105,
            bar_low = 98, bar_close = 98, volume = 4, tick_count = 3\<rparr>"
  by code_simp

lemma scenario_rollover:
  "events (snd (run (new_aggregator 60 100) [mk_tick 5 100 1, mk_tick 65 110 1])) =
     [BarOpened (open_bucket 60 0 (mk_tick 5 100 1)),
      BarClosed (open_bucket 60 0 (mk_tick 5 100 1)),
      BarOpened \<lparr>bucket_start = 60, interval_seconds = 60, bar_open = 110, bar_high = 110,
                 bar_low = 110, bar_close = 110, volume = 1, tick_count = 1\<rparr>]"
  by code_simp





text \<open>
  Claim C4. For every state of the aggregator and every sequence of ticks it then
  processes, the \<open>bucket_start\<close> values of the bar-opened events, in the order of
  emission, are strictly increasing.
\<close>

theorem bar_opened_strictly_increasing:
  "sorted_wrt (<) (map bucket_start (opened_bars (events (snd (run a ticks)))))"
  using run_opened_increasing [of a ticks "fst (run a ticks)" "snd (run a ticks)"] by simp

theorem bar_opened_strictly_increasing_witness:
  "sorted_wrt (<) (map bucket_start (opened_bars (events (snd
     (run (new_aggregator 60 100) [mk_tick 5 100 1, mk_tick 65 110 1, mk_tick 50 90 1]))))) \<and>
   map bucket_start (opened_bars (events (snd
     (run (new_aggregator 60 100) [mk_tick 5 100 1, mk_tick 65 110 1, mk_tick 50 90 1])))) = [0, 60]"
proof -
  have "map bucket_start (opened_bars (events (snd
     (run (new_aggregator 60 100) [mk_tick 5 100 1, mk_tick 65 110 1, mk_tick 50 90 1])))) = [0, 60]"
    by code_simp
  with bar_opened_strictly_increasing [of "new_aggregator 60 100"
      "[mk_tick 5 100 1, mk_tick 65 110 1, mk_tick 50 90 1]"]
  show ?thesis by blast
qed

text \<open>
  Claim C5. A tick whose bucket start lies before the start of the current bucket is
  dropped: the aggregator emits no event for it, and the state afterwards is the state
  before with the counter of discarded late ticks increased by exactly 1, so the
  current bucket and the history of closed buckets are what they were.
\<close>

theorem late_tick_dropped:
  assumes "current a = Some cur"
    and "bucket_start_of (interval a) t < bucket_start cur"
  shows "process_tick a t = (a\<lparr>late_ticks_discarded := late_ticks_discarded a + 1\<rparr>, [])"
  using assms by (simp add: process_tick_def Let_def)

theorem late_tick_dropped_witness:
  "process_tick (fst (run (new_aggregator 60 100) [mk_tick 5 100 1, mk_tick 65 110 1]))
     (mk_tick 50 90 1) =
   (\<lparr>interval = 60, history_limit = 100,
      current = Some (open_bucket 60 60 (mk_tick 65 110 1)),
      history = [open_bucket 60 0 (mk_tick 5 100 1)], late_ticks_discarded = 1\<rparr>, [])"
proof -
  let ?a = "fst (run (new_aggregator 60 100) [mk_tick 5 100 1, mk_tick 65 110 1])"
  have cur: "current ?a = Some (open_bucket 60 60 (mk_tick 65 110 1))"
    unfolding demo_run_eval by simp
  have late: "bucket_start_of (interval ?a) (mk_tick 50 90 1)
      < bucket_start (open_bucket 60 60 (mk_tick 65 110 1))"
    unfolding demo_run_eval by code_simp
  from late_tick_dropped [OF cur late] show ?thesis
    unfolding demo_run_eval by simp
qed

end
